theory Spec2Isabelle
  imports Complex_Main "HOL-Library.Sublist"
begin

section \<open>The YAKE keyword extraction server (yake\_server.py)\<close>

text \<open>
  The server has two routes: \<open>GET /health\<close> and \<open>POST /extract\<close>. Both handlers are
  modelled as functions from what they read to the response they return. Everything the
  handlers take from outside the file is an argument of the model:
  \<^item> the outcome of Flask's \<open>request.json\<close> (a parsed JSON value, or an exception);
  \<^item> the \<open>yake\<close> library (the constructor \<open>yake.KeywordExtractor\<close> and the method
    \<open>extract_keywords\<close> of the object it builds), either of which may raise.
  The calls made to the library are recorded in a trace, returned beside the response.
\<close>

subsection \<open>Python values\<close>

text \<open>
  What \<open>json.loads\<close> can produce. A Python \<open>int\<close> is unbounded (\<open>int\<close>). A Python
  \<open>float\<close> is carried as a \<open>real\<close>: the handler never computes with one, it only tests
  it for zero (truthiness) and passes it on. A \<open>dict\<close> is an association list read with
  \<open>map_of\<close>; the empty dict is the empty list.
\<close>

datatype json =
    JNull
  | JBool bool
  | JInt int
  | JFloat real
  | JStr string
  | JList "json list"
  | JObj "(string \<times> json) list"

text \<open>
  An exception object: its class, and what \<open>str(e)\<close> returns for it. Only instances of
  \<open>Exception\<close> are modelled, which is what \<open>except Exception\<close> catches. The messages
  of the exceptions the interpreter itself raises are written as CPython 3.10 words them;
  no property below depends on their wording.
\<close>

datatype py_exception = PyException (exc_class: string) (exc_str: string)

definition py_quote :: "string \<Rightarrow> string" where
  "py_quote s = CHR 0x27 # s @ [CHR 0x27]"

fun py_type_name :: "json \<Rightarrow> string" where
  "py_type_name JNull = ''NoneType''"
| "py_type_name (JBool b) = ''bool''"
| "py_type_name (JInt i) = ''int''"
| "py_type_name (JFloat x) = ''float''"
| "py_type_name (JStr s) = ''str''"
| "py_type_name (JList xs) = ''list''"
| "py_type_name (JObj kvs) = ''dict''"

definition TypeError :: "string \<Rightarrow> py_exception" where
  "TypeError msg = PyException ''TypeError'' msg"

definition AttributeError :: "string \<Rightarrow> py_exception" where
  "AttributeError msg = PyException ''AttributeError'' msg"

definition KeyError :: "string \<Rightarrow> py_exception" where
  "KeyError k = PyException ''KeyError'' (py_quote k)"

text \<open>Truth value testing, as \<open>not v\<close> uses it.\<close>

fun truthy :: "json \<Rightarrow> bool" where
  "truthy JNull = False"
| "truthy (JBool b) = b"
| "truthy (JInt i) = (i \<noteq> 0)"
| "truthy (JFloat x) = (x \<noteq> 0)"
| "truthy (JStr s) = (s \<noteq> [])"
| "truthy (JList xs) = (xs \<noteq> [])"
| "truthy (JObj kvs) = (kvs \<noteq> [])"

text \<open>\<open>isinstance(v, str)\<close>\<close>

fun isinstance_str :: "json \<Rightarrow> bool" where
  "isinstance_str (JStr s) = True"
| "isinstance_str v = False"

text \<open>
  \<open>key in v\<close> for a string \<open>key\<close>: a key test on a dict, a membership test on a list,
  a substring test on a string, and a \<open>TypeError\<close> on anything else.
\<close>

fun py_in :: "string \<Rightarrow> json \<Rightarrow> py_exception + bool" where
  "py_in key (JObj kvs) = Inr (map_of kvs key \<noteq> None)"
| "py_in key (JList xs) = Inr (JStr key \<in> set xs)"
| "py_in key (JStr s) = Inr (sublist key s)"
| "py_in key v =
     Inl (TypeError (''argument of type '' @ py_quote (py_type_name v) @ '' is not iterable''))"

text \<open>\<open>v[key]\<close> for a string \<open>key\<close>.\<close>

fun py_getitem :: "json \<Rightarrow> string \<Rightarrow> py_exception + json" where
  "py_getitem (JObj kvs) key =
     (case map_of kvs key of None \<Rightarrow> Inl (KeyError key) | Some v \<Rightarrow> Inr v)"
| "py_getitem (JList xs) key =
     Inl (TypeError ''list indices must be integers or slices, not str'')"
| "py_getitem (JStr s) key = Inl (TypeError ''string indices must be integers'')"
| "py_getitem v key =
     Inl (TypeError (py_quote (py_type_name v) @ '' object is not subscriptable''))"

text \<open>\<open>v.get(key, default)\<close>: only a dict has the method.\<close>

fun py_get :: "json \<Rightarrow> string \<Rightarrow> json \<Rightarrow> py_exception + json" where
  "py_get (JObj kvs) key dflt = Inr (case map_of kvs key of None \<Rightarrow> dflt | Some v \<Rightarrow> v)"
| "py_get v key dflt =
     Inl (AttributeError (py_quote (py_type_name v) @ '' object has no attribute ''
                          @ py_quote ''get''))"

text \<open>
  The slice \<open>xs[:stop]\<close>. \<open>None\<close> keeps the whole list; an integer (a \<open>bool\<close> is one)
  keeps the first \<open>stop\<close> elements when \<open>stop \<ge> 0\<close> and drops the last \<open>-stop\<close> when
  \<open>stop < 0\<close>; anything else is a \<open>TypeError\<close>.
\<close>

fun py_slice_to :: "'a list \<Rightarrow> json \<Rightarrow> py_exception + 'a list" where
  "py_slice_to xs JNull = Inr xs"
| "py_slice_to xs (JInt k) =
     Inr (if 0 \<le> k then take (nat k) xs else take (nat (int (length xs) + k)) xs)"
| "py_slice_to xs (JBool b) = Inr (take (if b then 1 else 0) xs)"
| "py_slice_to xs v =
     Inl (TypeError ''slice indices must be integers or None or have an __index__ method'')"

subsection \<open>The yake library\<close>

text \<open>
  The keyword arguments of \<open>yake.KeywordExtractor(lan=, n=, dedupLim=, dedupFunc=, top=,
  features=)\<close>.
\<close>

record yake_args =
  arg_lan :: json
  arg_n :: json
  arg_dedupLim :: json
  arg_dedupFunc :: json
  arg_top :: json
  arg_features :: json

text \<open>
  The library itself, with \<open>'e\<close> the type of extractor objects. Each call either raises
  (an \<open>Exception\<close>) or returns; \<open>extract_keywords\<close> returns \<open>(keyword, score)\<close> tuples
  with a \<open>float\<close> score, on which \<open>float(score)\<close> is the identity.
\<close>

record 'e yake =
  yake_KeywordExtractor :: "yake_args \<Rightarrow> py_exception + 'e"
  yake_extract_keywords :: "'e \<Rightarrow> json \<Rightarrow> py_exception + (string \<times> real) list"

datatype event =
    New_KeywordExtractor yake_args
  | Call_extract_keywords json

subsection \<open>Responses\<close>

text \<open>\<open>jsonify(d)\<close> or \<open>jsonify(d), code\<close>: a JSON body and an HTTP status.\<close>

record response =
  body :: json
  status :: nat

definition jsonify :: "json \<Rightarrow> response" where
  "jsonify d = \<lparr>body = d, status = 200\<rparr>"

definition jsonify_status :: "json \<Rightarrow> nat \<Rightarrow> response" where
  "jsonify_status d code = \<lparr>body = d, status = code\<rparr>"

subsection \<open>Defaults (lines 27-32)\<close>

definition DEFAULT_LANGUAGE :: json where
  "DEFAULT_LANGUAGE = JStr ''en''"

definition DEFAULT_MAX_KEYWORDS :: json where
  "DEFAULT_MAX_KEYWORDS = JInt 10"

definition DEFAULT_DEDUPLICATION_THRESHOLD :: json where
  "DEFAULT_DEDUPLICATION_THRESHOLD = JFloat (9 / 10)"

definition DEFAULT_DEDUPLICATION_ALGO :: json where
  "DEFAULT_DEDUPLICATION_ALGO = JStr ''seqm''"

definition DEFAULT_WINDOW_SIZE :: json where
  "DEFAULT_WINDOW_SIZE = JInt 1"

definition DEFAULT_TOP_N :: json where
  "DEFAULT_TOP_N = JInt 10"

subsection \<open>GET /health (lines 35-42)\<close>

definition health :: response where
  "health = jsonify (JObj [(''status'', JStr ''healthy''),
                           (''service'', JStr ''YAKE Keyword Extraction Server''),
                           (''version'', JStr ''1.0.0'')])"

subsection \<open>POST /extract (lines 45-124)\<close>

text \<open>Lines 85-90: the six optional fields, each read with its own default.\<close>

record params =
  language :: json
  max_keywords :: json
  dedup_threshold :: json
  dedup_algo :: json
  window_size :: json
  top_n :: json

definition resolve_params :: "json \<Rightarrow> py_exception + params" where
  "resolve_params data =
     (case py_get data ''language'' DEFAULT_LANGUAGE of
        Inl e \<Rightarrow> Inl e
      | Inr v1 \<Rightarrow>
     (case py_get data ''maxKeywords'' DEFAULT_MAX_KEYWORDS of
        Inl e \<Rightarrow> Inl e
      | Inr v2 \<Rightarrow>
     (case py_get data ''deduplicationThreshold'' DEFAULT_DEDUPLICATION_THRESHOLD of
        Inl e \<Rightarrow> Inl e
      | Inr v3 \<Rightarrow>
     (case py_get data ''deduplicationAlgo'' DEFAULT_DEDUPLICATION_ALGO of
        Inl e \<Rightarrow> Inl e
      | Inr v4 \<Rightarrow>
     (case py_get data ''windowSize'' DEFAULT_WINDOW_SIZE of
        Inl e \<Rightarrow> Inl e
      | Inr v5 \<Rightarrow>
     (case py_get data ''topN'' DEFAULT_TOP_N of
        Inl e \<Rightarrow> Inl e
      | Inr v6 \<Rightarrow>
          Inr \<lparr>language = v1, max_keywords = v2, dedup_threshold = v3,
               dedup_algo = v4, window_size = v5, top_n = v6\<rparr>))))))"

text \<open>Lines 93-100: the arguments the extractor is built with.\<close>

definition extractor_args :: "params \<Rightarrow> yake_args" where
  "extractor_args p =
     \<lparr>arg_lan = language p, arg_n = window_size p, arg_dedupLim = dedup_threshold p,
      arg_dedupFunc = dedup_algo p, arg_top = top_n p, arg_features = JNull\<rparr>"

text \<open>
  Lines 93-105: build the extractor, then run it on the text. The second component lists
  the library calls made, in order.
\<close>

definition run_yake ::
  "'e yake \<Rightarrow> yake_args \<Rightarrow> json \<Rightarrow> (py_exception + (string \<times> real) list) \<times> event list" where
  "run_yake lib args txt =
     (case yake_KeywordExtractor lib args of
        Inl e \<Rightarrow> (Inl e, [New_KeywordExtractor args])
      | Inr kw_extractor \<Rightarrow>
          (yake_extract_keywords lib kw_extractor txt,
           [New_KeywordExtractor args, Call_extract_keywords txt]))"

text \<open>Lines 108-119: slice, map to records, count.\<close>

definition keyword_json :: "string \<times> real \<Rightarrow> json" where
  "keyword_json p = (case p of (kw, score) \<Rightarrow> JObj [(''text'', JStr kw), (''score'', JFloat score)])"

definition format_results :: "(string \<times> real) list \<Rightarrow> json \<Rightarrow> py_exception + response" where
  "format_results raw_keywords maxkw =
     (case py_slice_to raw_keywords maxkw of
        Inl e \<Rightarrow> Inl e
      | Inr sl \<Rightarrow>
          (let keywords = map keyword_json sl
           in Inr (jsonify (JObj [(''keywords'', JList keywords),
                                  (''count'', JInt (int (length keywords)))]))))"

text \<open>
  Lines 70-119, the body of the \<open>try\<close>: \<open>Inl e\<close> when it raises \<open>e\<close>, \<open>Inr r\<close> when it
  returns \<open>r\<close>. The argument \<open>req_json\<close> is the outcome of reading \<open>request.json\<close>,
  which raises when Flask cannot parse the body.
\<close>

definition extract_keywords_try ::
  "'e yake \<Rightarrow> py_exception + json \<Rightarrow> (py_exception + response) \<times> event list" where
  "extract_keywords_try lib req_json =
     (case req_json of
        Inl e \<Rightarrow> (Inl e, [])
      | Inr data \<Rightarrow>
          if \<not> truthy data
          then (Inr (jsonify_status (JObj [(''error'', JStr ''Missing required field: text'')]) 400), [])
          else
            (case py_in ''text'' data of
               Inl e \<Rightarrow> (Inl e, [])
             | Inr present \<Rightarrow>
                 if \<not> present
                 then (Inr (jsonify_status
                         (JObj [(''error'', JStr ''Missing required field: text'')]) 400), [])
                 else
                   (case py_getitem data ''text'' of
                      Inl e \<Rightarrow> (Inl e, [])
                    | Inr txt \<Rightarrow>
                        if \<not> truthy txt \<or> \<not> isinstance_str txt
                        then (Inr (jsonify_status
                                (JObj [(''error'',
                                        JStr ''Invalid text field: must be non-empty string'')]) 400),
                              [])
                        else
                          (case resolve_params data of
                             Inl e \<Rightarrow> (Inl e, [])
                           | Inr p \<Rightarrow>
                               (case run_yake lib (extractor_args p) txt of
                                  (Inl e, evs) \<Rightarrow> (Inl e, evs)
                                | (Inr raw_keywords, evs) \<Rightarrow>
                                    (format_results raw_keywords (max_keywords p), evs))))))"

text \<open>
  Lines 69-124: the handler. Whatever the \<open>try\<close> raises becomes a 500 response carrying
  \<open>str(e)\<close>.
\<close>

definition extract_keywords ::
  "'e yake \<Rightarrow> py_exception + json \<Rightarrow> response \<times> event list" where
  "extract_keywords lib req_json =
     (case extract_keywords_try lib req_json of
        (Inl e, evs) \<Rightarrow> (jsonify_status (JObj [(''error'', JStr (exc_str e))]) 500, evs)
      | (Inr r, evs) \<Rightarrow> (r, evs))"

subsection \<open>The two routes\<close>

datatype request =
    GET_health
  | POST_extract "py_exception + json"

definition serve :: "'e yake \<Rightarrow> request \<Rightarrow> response" where
  "serve lib req =
     (case req of
        GET_health \<Rightarrow> health
      | POST_extract req_json \<Rightarrow> fst (extract_keywords lib req_json))"

subsection \<open>Two stand-ins for the library, for concrete runs\<close>

text \<open>
  \<open>sample_yake\<close> builds an extractor from any arguments and returns three keywords for
  any text; \<open>failing_yake\<close> builds an extractor and raises when it is run.
\<close>

definition sample_keywords :: "(string \<times> real) list" where
  "sample_keywords = [(''alpha'', 1 / 10), (''beta'', 2 / 10), (''gamma'', 3 / 10)]"

definition sample_yake :: "yake_args yake" where
  "sample_yake =
     \<lparr>yake_KeywordExtractor = (\<lambda>args. Inr args),
      yake_extract_keywords = (\<lambda>ex txt. Inr sample_keywords)\<rparr>"

definition failing_yake :: "yake_args yake" where
  "failing_yake =
     \<lparr>yake_KeywordExtractor = (\<lambda>args. Inr args),
      yake_extract_keywords = (\<lambda>ex txt. Inl (PyException ''ValueError'' ''bad ngram size''))\<rparr>"

text \<open>
  A request body with the omitted optional fields written out at their defaults: a field
  that is present keeps its value.
\<close>

definition set_default :: "string \<Rightarrow> json \<Rightarrow> (string \<times> json) list \<Rightarrow> (string \<times> json) list" where
  "set_default key dflt kvs = (if map_of kvs key = None then kvs @ [(key, dflt)] else kvs)"

definition with_defaults :: "(string \<times> json) list \<Rightarrow> (string \<times> json) list" where
  "with_defaults kvs =
     set_default ''topN'' DEFAULT_TOP_N
       (set_default ''windowSize'' DEFAULT_WINDOW_SIZE
         (set_default ''deduplicationAlgo'' DEFAULT_DEDUPLICATION_ALGO
           (set_default ''deduplicationThreshold'' DEFAULT_DEDUPLICATION_THRESHOLD
             (set_default ''maxKeywords'' DEFAULT_MAX_KEYWORDS
               (set_default ''language'' DEFAULT_LANGUAGE kvs)))))"

text \<open>The documented default of each optional field.\<close>

definition optional_default :: "string \<Rightarrow> json option" where
  "optional_default key =
     map_of [(''language'', DEFAULT_LANGUAGE), (''maxKeywords'', DEFAULT_MAX_KEYWORDS),
             (''deduplicationThreshold'', DEFAULT_DEDUPLICATION_THRESHOLD),
             (''deduplicationAlgo'', DEFAULT_DEDUPLICATION_ALGO),
             (''windowSize'', DEFAULT_WINDOW_SIZE), (''topN'', DEFAULT_TOP_N)] key"

section \<open>Properties\<close>

subsection \<open>Reading the request\<close>

text \<open>On a dict every \<open>.get\<close> succeeds, so the parameters are always resolved.\<close>

lemma resolve_params_dict:
  "resolve_params (JObj kvs) =
     Inr \<lparr>language = (case map_of kvs ''language'' of None \<Rightarrow> DEFAULT_LANGUAGE | Some v \<Rightarrow> v),
          max_keywords = (case map_of kvs ''maxKeywords'' of None \<Rightarrow> DEFAULT_MAX_KEYWORDS | Some v \<Rightarrow> v),
          dedup_threshold = (case map_of kvs ''deduplicationThreshold'' of
                               None \<Rightarrow> DEFAULT_DEDUPLICATION_THRESHOLD | Some v \<Rightarrow> v),
          dedup_algo = (case map_of kvs ''deduplicationAlgo'' of
                          None \<Rightarrow> DEFAULT_DEDUPLICATION_ALGO | Some v \<Rightarrow> v),
          window_size = (case map_of kvs ''windowSize'' of None \<Rightarrow> DEFAULT_WINDOW_SIZE | Some v \<Rightarrow> v),
          top_n = (case map_of kvs ''topN'' of None \<Rightarrow> DEFAULT_TOP_N | Some v \<Rightarrow> v)\<rparr>"
  by (simp add: resolve_params_def)

lemma max_keywords_resolved:
  assumes "resolve_params (JObj kvs) = Inr p" "map_of kvs ''maxKeywords'' = Some v"
  shows "max_keywords p = v"
  using assms by (auto simp: resolve_params_dict)

text \<open>
  What the try block does with a dict: it looks only at the \<open>text\<close> entry and at the
  resolved parameters.
\<close>

lemma try_dict:
  "extract_keywords_try lib (Inr (JObj kvs)) =
     (case map_of kvs ''text'' of
        None \<Rightarrow>
          (Inr \<lparr>body = JObj [(''error'', JStr ''Missing required field: text'')],
                status = 400\<rparr>, [])
      | Some txt \<Rightarrow>
          if \<not> truthy txt \<or> \<not> isinstance_str txt
          then (Inr \<lparr>body = JObj [(''error'',
                                   JStr ''Invalid text field: must be non-empty string'')],
                     status = 400\<rparr>, [])
          else (case resolve_params (JObj kvs) of
                  Inl e \<Rightarrow> (Inl e, [])
                | Inr p \<Rightarrow>
                    (case run_yake lib (extractor_args p) txt of
                       (Inl e, evs) \<Rightarrow> (Inl e, evs)
                     | (Inr raw_keywords, evs) \<Rightarrow>
                         (format_results raw_keywords (max_keywords p), evs))))"
proof (cases "map_of kvs (''text'')")
  case None
  then show ?thesis
    by (simp add: extract_keywords_try_def jsonify_status_def)
next
  case (Some v)
  then have "kvs \<noteq> []" by auto
  with Some show ?thesis
    by (simp add: extract_keywords_try_def jsonify_status_def)
qed

text \<open>A request that passes validation reaches the library (lines 85-119).\<close>

lemma try_valid:
  assumes "map_of kvs ''text'' = Some (JStr s)" "s \<noteq> []"
      and "resolve_params (JObj kvs) = Inr p"
  shows "extract_keywords_try lib (Inr (JObj kvs)) =
           (case run_yake lib (extractor_args p) (JStr s) of
              (Inl e, evs) \<Rightarrow> (Inl e, evs)
            | (Inr raw_keywords, evs) \<Rightarrow> (format_results raw_keywords (max_keywords p), evs))"
proof -
  from assms(1) have "kvs \<noteq> []" by auto
  with assms show ?thesis
    by (simp add: extract_keywords_try_def)
qed

lemma invalid_value: "v = JStr [] \<or> \<not> isinstance_str v \<Longrightarrow> \<not> truthy v \<or> \<not> isinstance_str v"
  by auto

subsection \<open>Formatting the result\<close>

lemma format_results_nonneg:
  assumes "0 \<le> k"
  shows "format_results raw (JInt k) =
           Inr \<lparr>body = JObj [(''keywords'', JList (map keyword_json (take (nat k) raw))),
                            (''count'', JInt (int (min (nat k) (length raw))))],
                status = 200\<rparr>"
  using assms by (simp add: format_results_def jsonify_def min_def)

lemma format_results_zero:
  "format_results raw (JInt 0) =
     Inr \<lparr>body = JObj [(''keywords'', JList []), (''count'', JInt 0)], status = 200\<rparr>"
  by (simp add: format_results_def jsonify_def)

lemma format_results_negative:
  assumes "k < 0"
  shows "format_results raw (JInt k) =
           Inr \<lparr>body = JObj [(''keywords'',
                             JList (map keyword_json (take (length raw - nat (- k)) raw))),
                            (''count'', JInt (int (length raw - nat (- k))))],
                status = 200\<rparr>"
proof -
  have "nat (int (length raw) + k) = length raw - nat (- k)"
    using assms by arith
  moreover have "min (length raw) (length raw - nat (- k)) = length raw - nat (- k)"
    by simp
  ultimately show ?thesis
    using assms by (simp add: format_results_def jsonify_def)
qed

text \<open>Whatever the stop value, a slice that succeeds is a prefix of the list.\<close>

lemma py_slice_to_take:
  assumes "py_slice_to xs v = Inr sl"
  shows "\<exists>m. sl = take m xs"
proof (cases v)
  case JNull
  with assms have "sl = take (length xs) xs" by simp
  then show ?thesis by blast
next
  case (JInt k)
  with assms show ?thesis by (cases "0 \<le> k") auto
next
  case (JBool b)
  with assms show ?thesis by auto
qed (use assms in auto)

lemma format_results_shape:
  assumes "format_results raw v = Inr r"
  shows "\<exists>m. r = \<lparr>body = JObj [(''keywords'', JList (map keyword_json (take m raw))),
                              (''count'', JInt (int (length (map keyword_json (take m raw)))))],
                  status = 200\<rparr>"
proof -
  from assms obtain sl where sl: "py_slice_to raw v = Inr sl"
    and r: "r = jsonify (JObj [(''keywords'', JList (map keyword_json sl)),
                               (''count'', JInt (int (length (map keyword_json sl))))])"
    by (auto simp: format_results_def Let_def split: sum.splits)
  from py_slice_to_take [OF sl] obtain m where "sl = take m raw" ..
  with r show ?thesis by (auto simp: jsonify_def)
qed

subsection \<open>The ways the try block can end\<close>

lemma try_outcomes:
  "(\<exists>e evs. extract_keywords_try lib req_json = (Inl e, evs))
   \<or> extract_keywords_try lib req_json =
        (Inr \<lparr>body = JObj [(''error'', JStr ''Missing required field: text'')],
              status = 400\<rparr>, [])
   \<or> extract_keywords_try lib req_json =
        (Inr \<lparr>body = JObj [(''error'', JStr ''Invalid text field: must be non-empty string'')],
              status = 400\<rparr>, [])
   \<or> (\<exists>args t ex raw v r.
         extract_keywords_try lib req_json =
           (Inr r, [New_KeywordExtractor args, Call_extract_keywords t])
         \<and> yake_KeywordExtractor lib args = Inr ex
         \<and> yake_extract_keywords lib ex t = Inr raw
         \<and> format_results raw v = Inr r)"
proof (cases req_json)
  case (Inl e)
  then show ?thesis by (simp add: extract_keywords_try_def)
next
  case (Inr data)
  show ?thesis
  proof (cases "truthy data")
    case False
    with Inr show ?thesis by (simp add: extract_keywords_try_def jsonify_status_def)
  next
    case True
    note truthy_data = this
    show ?thesis
    proof (cases "py_in ''text'' data")
      case (Inl e)
      with Inr truthy_data show ?thesis by (simp add: extract_keywords_try_def)
    next
      case present: (Inr present)
      show ?thesis
      proof (cases present)
        case False
        with Inr truthy_data present show ?thesis
          by (simp add: extract_keywords_try_def jsonify_status_def)
      next
        case True
        note is_present = this
        show ?thesis
        proof (cases "py_getitem data ''text''")
          case (Inl e)
          with Inr truthy_data present is_present show ?thesis
            by (simp add: extract_keywords_try_def)
        next
          case item: (Inr v)
          show ?thesis
          proof (cases "\<not> truthy v \<or> \<not> isinstance_str v")
            case True
            with Inr truthy_data present is_present item show ?thesis
              by (simp add: extract_keywords_try_def jsonify_status_def)
          next
            case False
            with Inr truthy_data present is_present item
            have tr: "extract_keywords_try lib req_json =
                    (case resolve_params data of
                       Inl e \<Rightarrow> (Inl e, [])
                     | Inr p \<Rightarrow>
                         (case run_yake lib (extractor_args p) v of
                            (Inl e, evs) \<Rightarrow> (Inl e, evs)
                          | (Inr raw_keywords, evs) \<Rightarrow>
                              (format_results raw_keywords (max_keywords p), evs)))"
              by (simp add: extract_keywords_try_def)
            show ?thesis
            proof (cases "resolve_params data")
              case (Inl e)
              with tr show ?thesis by simp
            next
              case p: (Inr p)
              show ?thesis
              proof (cases "yake_KeywordExtractor lib (extractor_args p)")
                case (Inl e)
                with tr p show ?thesis by (simp add: run_yake_def)
              next
                case ex: (Inr ex)
                show ?thesis
                proof (cases "yake_extract_keywords lib ex v")
                  case (Inl e)
                  with tr p ex show ?thesis by (simp add: run_yake_def)
                next
                  case raw: (Inr raw)
                  show ?thesis
                  proof (cases "format_results raw (max_keywords p)")
                    case (Inl e)
                    with tr p ex raw show ?thesis by (simp add: run_yake_def)
                  next
                    case (Inr r)
                    with tr p ex raw
                    have "extract_keywords_try lib req_json =
                            (Inr r, [New_KeywordExtractor (extractor_args p),
                                     Call_extract_keywords v])"
                      by (simp add: run_yake_def)
                    with ex raw Inr show ?thesis by blast
                  qed
                qed
              qed
            qed
          qed
        qed
      qed
    qed
  qed
qed

lemma status_400_no_call:
  assumes "status (fst (extract_keywords lib req_json)) = 400"
  shows "snd (extract_keywords lib req_json) = []"
  using assms
  by (auto simp: extract_keywords_def extract_keywords_try_def jsonify_status_def jsonify_def
        run_yake_def format_results_def
      split: sum.splits if_splits prod.splits)

text \<open>The library is reached only through a dict whose \<open>text\<close> is a non-empty string.\<close>

lemma py_getitem_dict:
  assumes "py_getitem data key = Inr v"
  shows "\<exists>kvs. data = JObj kvs \<and> map_of kvs key = Some v"
  using assms by (cases data) (auto split: option.splits)

lemma truthy_str:
  assumes "truthy v" and "isinstance_str v"
  shows "\<exists>s. v = JStr s \<and> s \<noteq> []"
  using assms by (cases v) auto

lemma call_needs_valid_text:
  assumes "snd (extract_keywords lib req_json) \<noteq> []"
  shows "\<exists>kvs s. req_json = Inr (JObj kvs) \<and> map_of kvs ''text'' = Some (JStr s) \<and> s \<noteq> []"
proof -
  from assms have tr: "snd (extract_keywords_try lib req_json) \<noteq> []"
    by (auto simp: extract_keywords_def split: prod.splits sum.splits)
  then obtain data where data: "req_json = Inr data"
    by (cases req_json) (auto simp: extract_keywords_try_def)
  from tr data have t: "truthy data"
    by (auto simp: extract_keywords_try_def split: if_splits)
  from tr data t obtain present where present: "py_in ''text'' data = Inr present"
    by (cases "py_in ''text'' data") (auto simp: extract_keywords_try_def)
  from tr data t present have "present"
    by (auto simp: extract_keywords_try_def split: if_splits)
  with tr data t present obtain v where v: "py_getitem data ''text'' = Inr v"
    by (cases "py_getitem data ''text''") (auto simp: extract_keywords_try_def)
  from tr data t present \<open>present\<close> v have ok: "truthy v" "isinstance_str v"
    by (auto simp: extract_keywords_try_def split: if_splits)
  from py_getitem_dict [OF v] obtain kvs where "data = JObj kvs" "map_of kvs ''text'' = Some v"
    by blast
  moreover from truthy_str [OF ok] obtain s where "v = JStr s" "s \<noteq> []" by blast
  ultimately show ?thesis using data by blast
qed

subsection \<open>Requests that differ only in defaults written out\<close>

lemma handler_dict_cong:
  assumes "map_of kvs ''text'' = map_of kvs' ''text''"
      and "resolve_params (JObj kvs) = resolve_params (JObj kvs')"
  shows "extract_keywords lib (Inr (JObj kvs)) = extract_keywords lib (Inr (JObj kvs'))"
proof -
  have "extract_keywords_try lib (Inr (JObj kvs)) = extract_keywords_try lib (Inr (JObj kvs'))"
    by (simp add: try_dict assms split: option.splits)
  then show ?thesis
    by (simp add: extract_keywords_def)
qed

lemma map_of_set_default:
  "map_of (set_default key dflt kvs) k =
     (if k = key \<and> map_of kvs key = None then Some dflt else map_of kvs k)"
  by (auto simp: set_default_def map_add_def split: option.splits)

lemma optional_default_cases:
  assumes "optional_default key = Some dflt"
  shows "key = ''language'' \<and> dflt = DEFAULT_LANGUAGE
       \<or> key = ''maxKeywords'' \<and> dflt = DEFAULT_MAX_KEYWORDS
       \<or> key = ''deduplicationThreshold'' \<and> dflt = DEFAULT_DEDUPLICATION_THRESHOLD
       \<or> key = ''deduplicationAlgo'' \<and> dflt = DEFAULT_DEDUPLICATION_ALGO
       \<or> key = ''windowSize'' \<and> dflt = DEFAULT_WINDOW_SIZE
       \<or> key = ''topN'' \<and> dflt = DEFAULT_TOP_N"
  using assms by (simp add: optional_default_def split: if_splits)

lemma set_default_same:
  assumes "optional_default key = Some dflt"
  shows "extract_keywords lib (Inr (JObj (set_default key dflt kvs))) =
         extract_keywords lib (Inr (JObj kvs))"
proof (rule handler_dict_cong)
  from optional_default_cases [OF assms]
  show "map_of (set_default key dflt kvs) ''text'' = map_of kvs ''text''"
    by (auto simp: map_of_set_default)
  from optional_default_cases [OF assms]
  show "resolve_params (JObj (set_default key dflt kvs)) = resolve_params (JObj kvs)"
    by (elim disjE conjE) (simp_all add: resolve_params_dict map_of_set_default)
qed

lemma with_defaults_same:
  "extract_keywords lib (Inr (JObj (with_defaults kvs))) = extract_keywords lib (Inr (JObj kvs))"
  by (simp add: with_defaults_def set_default_same optional_default_def)

lemma with_defaults_text_only:
  "with_defaults [(''text'', t)] =
     [(''text'', t), (''language'', JStr ''en''), (''maxKeywords'', JInt 10),
      (''deduplicationThreshold'', JFloat (9 / 10)), (''deduplicationAlgo'', JStr ''seqm''),
      (''windowSize'', JInt 1), (''topN'', JInt 10)]"
  by (simp add: with_defaults_def set_default_def DEFAULT_LANGUAGE_def DEFAULT_MAX_KEYWORDS_def
        DEFAULT_DEDUPLICATION_THRESHOLD_def DEFAULT_DEDUPLICATION_ALGO_def
        DEFAULT_WINDOW_SIZE_def DEFAULT_TOP_N_def)

subsection \<open>Unfolding for concrete runs\<close>

lemmas run_defs = extract_keywords_def extract_keywords_try_def resolve_params_def run_yake_def
  format_results_def extractor_args_def jsonify_def jsonify_status_def keyword_json_def
  sample_yake_def sample_keywords_def failing_yake_def
  DEFAULT_LANGUAGE_def DEFAULT_MAX_KEYWORDS_def DEFAULT_DEDUPLICATION_THRESHOLD_def
  DEFAULT_DEDUPLICATION_ALGO_def DEFAULT_WINDOW_SIZE_def DEFAULT_TOP_N_def
  TypeError_def py_quote_def

section \<open>The claims\<close>

subsection \<open>Truncation\<close>

text \<open>
  C1. For a request with a non-empty string \<open>text\<close> and \<open>maxKeywords = k \<ge> 0\<close>, when
  the library returns \<open>raw\<close>, the response is a 200 whose \<open>keywords\<close> are the first
  \<open>min k (length raw)\<close> pairs of \<open>raw\<close>, in the library's order, each mapped to
  \<open>{text, score}\<close>, and whose \<open>count\<close> is the length of that truncated list.
\<close>

theorem truncation_to_maxKeywords:
  assumes "map_of kvs ''text'' = Some (JStr s)" and "s \<noteq> []"
      and "map_of kvs ''maxKeywords'' = Some (JInt k)" and "0 \<le> k"
      and "resolve_params (JObj kvs) = Inr p"
      and "yake_KeywordExtractor lib (extractor_args p) = Inr ex"
      and "yake_extract_keywords lib ex (JStr s) = Inr raw"
  shows "fst (extract_keywords lib (Inr (JObj kvs))) =
           \<lparr>body = JObj [(''keywords'', JList (map keyword_json (take (nat k) raw))),
                        (''count'', JInt (int (min (nat k) (length raw))))],
            status = 200\<rparr>"
proof -
  have mk: "max_keywords p = JInt k"
    using assms(5) assms(3) by (rule max_keywords_resolved)
  have run: "run_yake lib (extractor_args p) (JStr s) =
               (Inr raw, [New_KeywordExtractor (extractor_args p), Call_extract_keywords (JStr s)])"
    using assms(6,7) by (simp add: run_yake_def)
  have "extract_keywords_try lib (Inr (JObj kvs)) =
          (format_results raw (JInt k),
           [New_KeywordExtractor (extractor_args p), Call_extract_keywords (JStr s)])"
    using try_valid [OF assms(1,2,5), of lib] run mk by simp
  then show ?thesis
    using format_results_nonneg [OF assms(4), of raw] by (simp add: extract_keywords_def)
qed

theorem truncation_to_maxKeywords_witness:
  "fst (extract_keywords sample_yake
          (Inr (JObj [(''text'', JStr ''deep learning models''), (''maxKeywords'', JInt 2)]))) =
     \<lparr>body = JObj [(''keywords'',
                    JList [JObj [(''text'', JStr ''alpha''), (''score'', JFloat (1 / 10))],
                           JObj [(''text'', JStr ''beta''), (''score'', JFloat (2 / 10))]]),
                  (''count'', JInt 2)],
      status = 200\<rparr>"
  using truncation_to_maxKeywords
          [of "[(''text'', JStr ''deep learning models''), (''maxKeywords'', JInt 2)]"
              "''deep learning models''" 2
              "\<lparr>language = DEFAULT_LANGUAGE, max_keywords = JInt 2,
                dedup_threshold = DEFAULT_DEDUPLICATION_THRESHOLD,
                dedup_algo = DEFAULT_DEDUPLICATION_ALGO,
                window_size = DEFAULT_WINDOW_SIZE, top_n = DEFAULT_TOP_N\<rparr>"
              sample_yake
              "extractor_args \<lparr>language = DEFAULT_LANGUAGE, max_keywords = JInt 2,
                dedup_threshold = DEFAULT_DEDUPLICATION_THRESHOLD,
                dedup_algo = DEFAULT_DEDUPLICATION_ALGO,
                window_size = DEFAULT_WINDOW_SIZE, top_n = DEFAULT_TOP_N\<rparr>"
              sample_keywords]
  by (simp add: resolve_params_def sample_yake_def sample_keywords_def keyword_json_def)

text \<open>
  C2, as the code has it. With \<open>maxKeywords = 0\<close> the response is a 200 with no keywords
  and \<open>count = 0\<close>. With a negative \<open>maxKeywords = -m\<close> the slice drops the last \<open>m\<close>
  pairs: the response is a 200 with the first \<open>length raw - m\<close> pairs (none when
  \<open>m \<ge> length raw\<close>) and \<open>count\<close> their number. It is never an error.
\<close>

theorem nonpositive_maxKeywords:
  assumes "map_of kvs ''text'' = Some (JStr s)" and "s \<noteq> []"
      and "map_of kvs ''maxKeywords'' = Some (JInt k)" and "k \<le> 0"
      and "resolve_params (JObj kvs) = Inr p"
      and "yake_KeywordExtractor lib (extractor_args p) = Inr ex"
      and "yake_extract_keywords lib ex (JStr s) = Inr raw"
  shows "fst (extract_keywords lib (Inr (JObj kvs))) =
           \<lparr>body = JObj [(''keywords'',
                          JList (map keyword_json
                                   (if k = 0 then [] else take (length raw - nat (- k)) raw))),
                        (''count'',
                          JInt (if k = 0 then 0 else int (length raw - nat (- k))))],
            status = 200\<rparr>"
proof -
  have mk: "max_keywords p = JInt k"
    using assms(5) assms(3) by (rule max_keywords_resolved)
  have run: "run_yake lib (extractor_args p) (JStr s) =
               (Inr raw, [New_KeywordExtractor (extractor_args p), Call_extract_keywords (JStr s)])"
    using assms(6,7) by (simp add: run_yake_def)
  have tr: "extract_keywords_try lib (Inr (JObj kvs)) =
          (format_results raw (JInt k),
           [New_KeywordExtractor (extractor_args p), Call_extract_keywords (JStr s)])"
    using try_valid [OF assms(1,2,5), of lib] run mk by simp
  show ?thesis
  proof (cases "k = 0")
    case True
    with tr show ?thesis
      by (simp add: extract_keywords_def format_results_zero)
  next
    case False
    with assms(4) have "k < 0" by simp
    from format_results_negative [OF this, of raw] tr False show ?thesis
      by (simp add: extract_keywords_def)
  qed
qed

theorem nonpositive_maxKeywords_witness:
  "fst (extract_keywords sample_yake
          (Inr (JObj [(''text'', JStr ''hello''), (''maxKeywords'', JInt (- 2))]))) =
     \<lparr>body = JObj [(''keywords'',
                    JList [JObj [(''text'', JStr ''alpha''), (''score'', JFloat (1 / 10))]]),
                  (''count'', JInt 1)],
      status = 200\<rparr>"
  using nonpositive_maxKeywords
          [of "[(''text'', JStr ''hello''), (''maxKeywords'', JInt (- 2))]"
              "''hello''" "- 2"
              "\<lparr>language = DEFAULT_LANGUAGE, max_keywords = JInt (- 2),
                dedup_threshold = DEFAULT_DEDUPLICATION_THRESHOLD,
                dedup_algo = DEFAULT_DEDUPLICATION_ALGO,
                window_size = DEFAULT_WINDOW_SIZE, top_n = DEFAULT_TOP_N\<rparr>"
              sample_yake
              "extractor_args \<lparr>language = DEFAULT_LANGUAGE, max_keywords = JInt (- 2),
                dedup_threshold = DEFAULT_DEDUPLICATION_THRESHOLD,
                dedup_algo = DEFAULT_DEDUPLICATION_ALGO,
                window_size = DEFAULT_WINDOW_SIZE, top_n = DEFAULT_TOP_N\<rparr>"
              sample_keywords]
  by (simp add: resolve_params_def sample_yake_def sample_keywords_def keyword_json_def)

text \<open>
  C2 as stated fails: with \<open>maxKeywords = -1\<close> and three keywords from the library, the
  response holds two keywords and \<open>count = 2\<close>.
\<close>

theorem negative_maxKeywords_counterexample:
  "fst (extract_keywords sample_yake
          (Inr (JObj [(''text'', JStr ''hello''), (''maxKeywords'', JInt (- 1))]))) =
     \<lparr>body = JObj [(''keywords'',
                    JList [JObj [(''text'', JStr ''alpha''), (''score'', JFloat (1 / 10))],
                           JObj [(''text'', JStr ''beta''), (''score'', JFloat (2 / 10))]]),
                  (''count'', JInt 2)],
      status = 200\<rparr>
   \<and> body (fst (extract_keywords sample_yake
          (Inr (JObj [(''text'', JStr ''hello''), (''maxKeywords'', JInt (- 1))])))) \<noteq>
     JObj [(''keywords'', JList []), (''count'', JInt 0)]"
  by (simp add: run_defs)

subsection \<open>Validation\<close>

text \<open>
  C3, as the code has it. When the parsed body is falsy (\<open>null\<close>, \<open>false\<close>, \<open>0\<close>, an
  empty string, list or object) or is an object without a \<open>text\<close> key, the response is
  a 400 with the message \<open>Missing required field: text\<close>, and the library is not called.
\<close>

theorem missing_text:
  assumes "\<not> truthy data \<or> (\<exists>kvs. data = JObj kvs \<and> map_of kvs ''text'' = None)"
  shows "extract_keywords lib (Inr data) =
           (\<lparr>body = JObj [(''error'', JStr ''Missing required field: text'')], status = 400\<rparr>, [])"
  using assms
  by (auto simp: extract_keywords_def extract_keywords_try_def jsonify_status_def)

theorem missing_text_witness:
  "extract_keywords sample_yake (Inr (JObj [(''language'', JStr ''en'')])) =
     (\<lparr>body = JObj [(''error'', JStr ''Missing required field: text'')], status = 400\<rparr>, [])
   \<and> extract_keywords sample_yake (Inr JNull) =
     (\<lparr>body = JObj [(''error'', JStr ''Missing required field: text'')], status = 400\<rparr>, [])"
  using missing_text [of "JObj [(''language'', JStr ''en'')]" sample_yake]
        missing_text [of JNull sample_yake]
  by simp

text \<open>
  C3 as stated fails: the body \<open>5\<close> is not a mapping, and the test \<open>'text' not in data\<close>
  raises on it, so the response is a 500; and the message of the 400 starts with a capital
  \<open>M\<close>.
\<close>

theorem non_mapping_body_counterexample:
  "status (fst (extract_keywords sample_yake (Inr (JInt 5)))) = 500
   \<and> status (fst (extract_keywords sample_yake (Inr (JInt 5)))) \<noteq> 400
   \<and> body (fst (extract_keywords sample_yake (Inr (JInt 5)))) \<noteq>
       JObj [(''error'', JStr ''Missing required field: text'')]
   \<and> body (fst (extract_keywords sample_yake (Inr (JObj [(''language'', JStr ''en'')])))) \<noteq>
       JObj [(''error'', JStr ''missing required field: text'')]"
  by (simp add: run_defs)

text \<open>
  C4, as the code has it. When the body is an object whose \<open>text\<close> is the empty string or
  is not a string, the response is a 400 with the message
  \<open>Invalid text field: must be non-empty string\<close>, the same for both, and the library is
  not called.
\<close>

theorem invalid_text:
  assumes "map_of kvs ''text'' = Some v"
      and "v = JStr [] \<or> \<not> isinstance_str v"
  shows "extract_keywords lib (Inr (JObj kvs)) =
           (\<lparr>body = JObj [(''error'', JStr ''Invalid text field: must be non-empty string'')],
             status = 400\<rparr>, [])"
proof -
  from assms(1) have ne: "kvs \<noteq> []" by auto
  from assms(2) have bad: "\<not> truthy v \<or> \<not> isinstance_str v" by (rule invalid_value)
  from ne bad assms(1) show ?thesis
    by (simp add: extract_keywords_def extract_keywords_try_def jsonify_status_def)
qed

theorem invalid_text_witness:
  "extract_keywords sample_yake (Inr (JObj [(''text'', JInt 42)])) =
     (\<lparr>body = JObj [(''error'', JStr ''Invalid text field: must be non-empty string'')],
       status = 400\<rparr>, [])
   \<and> extract_keywords sample_yake (Inr (JObj [(''text'', JInt 42)])) =
     extract_keywords sample_yake (Inr (JObj [(''text'', JStr [])]))"
  using invalid_text [of "[(''text'', JInt 42)]" "JInt 42" sample_yake]
        invalid_text [of "[(''text'', JStr [])]" "JStr []" sample_yake]
  by simp

text \<open>
  C4 as stated fails only in the wording of the message: it starts with a capital \<open>I\<close>.
\<close>

theorem invalid_text_message_counterexample:
  "fst (extract_keywords sample_yake (Inr (JObj [(''text'', JStr [])]))) =
     \<lparr>body = JObj [(''error'', JStr ''Invalid text field: must be non-empty string'')],
      status = 400\<rparr>
   \<and> body (fst (extract_keywords sample_yake (Inr (JObj [(''text'', JStr [])])))) \<noteq>
       JObj [(''error'', JStr ''invalid text field: must be non-empty string'')]"
  by (simp add: run_defs)

text \<open>
  C5, as the code has it. A request whose parsed body is falsy, or is an object with no
  \<open>text\<close>, an empty \<open>text\<close> or a \<open>text\<close> that is not a string, gets a 400, not a
  500, with a non-empty \<open>error\<close>, and no call to the library is made. No request
  answered with a 400 has called the library, and the library is called only for an object
  whose \<open>text\<close> is a non-empty string.
\<close>

theorem validation_failure_no_extraction:
  assumes "\<not> truthy data
           \<or> (\<exists>kvs. data = JObj kvs
                  \<and> (map_of kvs ''text'' = None \<or> map_of kvs ''text'' = Some (JStr [])
                       \<or> (\<exists>v. map_of kvs ''text'' = Some v \<and> \<not> isinstance_str v)))"
  shows "status (fst (extract_keywords lib (Inr data))) = 400
         \<and> status (fst (extract_keywords lib (Inr data))) \<noteq> 500
         \<and> (\<exists>msg. msg \<noteq> [] \<and> body (fst (extract_keywords lib (Inr data))) =
                                   JObj [(''error'', JStr msg)])
         \<and> snd (extract_keywords lib (Inr data)) = []
         \<and> (\<forall>req_json. status (fst (extract_keywords lib req_json)) = 400 \<longrightarrow>
                snd (extract_keywords lib req_json) = [])
         \<and> (\<forall>req_json. snd (extract_keywords lib req_json) \<noteq> [] \<longrightarrow>
                (\<exists>kvs s. req_json = Inr (JObj kvs)
                         \<and> map_of kvs ''text'' = Some (JStr s) \<and> s \<noteq> []))"
proof -
  consider (falsy) "\<not> truthy data"
    | (missing) kvs where "data = JObj kvs" "map_of kvs ''text'' = None"
    | (invalid) kvs v where "data = JObj kvs" "map_of kvs ''text'' = Some v"
        "\<not> truthy v \<or> \<not> isinstance_str v"
    using assms by auto
  then have "extract_keywords lib (Inr data) =
               (\<lparr>body = JObj [(''error'', JStr ''Missing required field: text'')],
                 status = 400\<rparr>, [])
             \<or> extract_keywords lib (Inr data) =
               (\<lparr>body = JObj [(''error'', JStr ''Invalid text field: must be non-empty string'')],
                 status = 400\<rparr>, [])"
  proof cases
    case falsy
    then show ?thesis
      by (simp add: extract_keywords_def extract_keywords_try_def jsonify_status_def)
  next
    case missing
    then show ?thesis
      by (simp add: extract_keywords_def try_dict)
  next
    case invalid
    then show ?thesis
      by (simp add: extract_keywords_def try_dict)
  qed
  moreover have "\<forall>req_json. status (fst (extract_keywords lib req_json)) = 400 \<longrightarrow>
                   snd (extract_keywords lib req_json) = []"
    by (simp add: status_400_no_call)
  moreover have "\<forall>req_json. snd (extract_keywords lib req_json) \<noteq> [] \<longrightarrow>
                (\<exists>kvs s. req_json = Inr (JObj kvs)
                         \<and> map_of kvs ''text'' = Some (JStr s) \<and> s \<noteq> [])"
    using call_needs_valid_text [of lib] by blast
  ultimately show ?thesis by auto
qed

theorem validation_failure_no_extraction_witness:
  "status (fst (extract_keywords failing_yake (Inr (JObj [(''text'', JStr [])])))) = 400
   \<and> status (fst (extract_keywords failing_yake (Inr (JObj [(''text'', JStr [])])))) \<noteq> 500
   \<and> (\<exists>msg. msg \<noteq> []
          \<and> body (fst (extract_keywords failing_yake (Inr (JObj [(''text'', JStr [])])))) =
              JObj [(''error'', JStr msg)])
   \<and> snd (extract_keywords failing_yake (Inr (JObj [(''text'', JStr [])]))) = []"
  using validation_failure_no_extraction [of "JObj [(''text'', JStr [])]" failing_yake]
  by simp

text \<open>
  C5 as stated fails: a body that is not a mapping (\<open>true\<close>, or the list \<open>["text"]\<close>)
  and a body that Flask cannot parse are refused before any library call, but with a 500,
  not a 400.
\<close>

theorem unguarded_body_counterexample:
  "status (fst (extract_keywords sample_yake (Inr (JBool True)))) = 500
   \<and> snd (extract_keywords sample_yake (Inr (JBool True))) = []
   \<and> status (fst (extract_keywords sample_yake (Inr (JList [JStr ''text''])))) = 500
   \<and> snd (extract_keywords sample_yake (Inr (JList [JStr ''text'']))) = []
   \<and> extract_keywords sample_yake
        (Inl (PyException ''BadRequest'' ''400 Bad Request: Failed to decode JSON object'')) =
      (\<lparr>body = JObj [(''error'', JStr ''400 Bad Request: Failed to decode JSON object'')],
        status = 500\<rparr>, [])"
  by (simp add: run_defs)

text \<open>
  C10. Any non-empty string passes validation, a string of whitespace included: the
  response is not a 400; the extractor is built with the resolved arguments; when it is
  built, \<open>extract_keywords\<close> is called with the string as it was sent; and the response is
  made from what the library answers on that string: a 500 with \<open>str(e)\<close> when either call
  raises \<open>e\<close>, and otherwise the slice of the pairs it returned.
\<close>

theorem nonempty_string_accepted:
  assumes "map_of kvs ''text'' = Some (JStr s)" and "s \<noteq> []"
      and "resolve_params (JObj kvs) = Inr p"
  shows "status (fst (extract_keywords lib (Inr (JObj kvs)))) \<noteq> 400
         \<and> extract_keywords lib (Inr (JObj kvs)) =
             (case yake_KeywordExtractor lib (extractor_args p) of
                Inl e \<Rightarrow>
                  (\<lparr>body = JObj [(''error'', JStr (exc_str e))], status = 500\<rparr>,
                   [New_KeywordExtractor (extractor_args p)])
              | Inr ex \<Rightarrow>
                  (case yake_extract_keywords lib ex (JStr s) of
                     Inl e \<Rightarrow>
                       (\<lparr>body = JObj [(''error'', JStr (exc_str e))], status = 500\<rparr>,
                        [New_KeywordExtractor (extractor_args p), Call_extract_keywords (JStr s)])
                   | Inr raw \<Rightarrow>
                       (case py_slice_to raw (max_keywords p) of
                          Inl e \<Rightarrow> \<lparr>body = JObj [(''error'', JStr (exc_str e))], status = 500\<rparr>
                        | Inr sl \<Rightarrow>
                            \<lparr>body = JObj [(''keywords'', JList (map keyword_json sl)),
                                         (''count'', JInt (int (length sl)))],
                             status = 200\<rparr>,
                        [New_KeywordExtractor (extractor_args p),
                         Call_extract_keywords (JStr s)])))"
proof -
  note tr = try_valid [OF assms, of lib]
  show ?thesis
  proof (cases "yake_KeywordExtractor lib (extractor_args p)")
    case (Inl e)
    with tr show ?thesis
      by (simp add: extract_keywords_def run_yake_def jsonify_status_def)
  next
    case ex: (Inr ex)
    show ?thesis
    proof (cases "yake_extract_keywords lib ex (JStr s)")
      case (Inl e)
      with tr ex show ?thesis
        by (simp add: extract_keywords_def run_yake_def jsonify_status_def)
    next
      case raw: (Inr raw)
      show ?thesis
      proof (cases "py_slice_to raw (max_keywords p)")
        case (Inl e)
        with tr ex raw show ?thesis
          by (simp add: extract_keywords_def run_yake_def jsonify_status_def format_results_def)
      next
        case (Inr sl)
        with tr ex raw show ?thesis
          by (simp add: extract_keywords_def run_yake_def format_results_def jsonify_def)
      qed
    qed
  qed
qed

theorem nonempty_string_accepted_witness:
  "extract_keywords sample_yake (Inr (JObj [(''text'', JStr '' '')])) =
     (\<lparr>body = JObj [(''keywords'',
                    JList [JObj [(''text'', JStr ''alpha''), (''score'', JFloat (1 / 10))],
                           JObj [(''text'', JStr ''beta''), (''score'', JFloat (2 / 10))],
                           JObj [(''text'', JStr ''gamma''), (''score'', JFloat (3 / 10))]]),
                  (''count'', JInt 3)],
       status = 200\<rparr>,
      [New_KeywordExtractor
         \<lparr>arg_lan = JStr ''en'', arg_n = JInt 1, arg_dedupLim = JFloat (9 / 10),
          arg_dedupFunc = JStr ''seqm'', arg_top = JInt 10, arg_features = JNull\<rparr>,
       Call_extract_keywords (JStr '' '')])"
  using nonempty_string_accepted
          [of "[(''text'', JStr '' '')]" "'' ''"
              "\<lparr>language = DEFAULT_LANGUAGE, max_keywords = DEFAULT_MAX_KEYWORDS,
                dedup_threshold = DEFAULT_DEDUPLICATION_THRESHOLD,
                dedup_algo = DEFAULT_DEDUPLICATION_ALGO,
                window_size = DEFAULT_WINDOW_SIZE, top_n = DEFAULT_TOP_N\<rparr>"
              sample_yake]
  by (simp add: resolve_params_def sample_yake_def sample_keywords_def extractor_args_def
        keyword_json_def
        DEFAULT_LANGUAGE_def DEFAULT_MAX_KEYWORDS_def DEFAULT_DEDUPLICATION_THRESHOLD_def
        DEFAULT_DEDUPLICATION_ALGO_def DEFAULT_WINDOW_SIZE_def DEFAULT_TOP_N_def)

subsection \<open>Failures of the library\<close>

text \<open>
  C6. For a request with a valid \<open>text\<close>, when the library raises \<open>e\<close> (in the
  constructor, or in \<open>extract_keywords\<close>), the response is a 500 whose \<open>error\<close> is
  \<open>str(e)\<close>, whatever the class of \<open>e\<close>; the constructor has been called once, and
  \<open>extract_keywords\<close> once when the constructor returned and not at all otherwise.
\<close>

theorem extraction_failure:
  assumes "map_of kvs ''text'' = Some (JStr s)" and "s \<noteq> []"
      and "resolve_params (JObj kvs) = Inr p"
      and "yake_KeywordExtractor lib (extractor_args p) = Inl e
           \<or> (\<exists>ex. yake_KeywordExtractor lib (extractor_args p) = Inr ex
                    \<and> yake_extract_keywords lib ex (JStr s) = Inl e)"
  shows "fst (extract_keywords lib (Inr (JObj kvs))) =
           \<lparr>body = JObj [(''error'', JStr (exc_str e))], status = 500\<rparr>
         \<and> snd (extract_keywords lib (Inr (JObj kvs))) =
             (if isl (yake_KeywordExtractor lib (extractor_args p))
              then [New_KeywordExtractor (extractor_args p)]
              else [New_KeywordExtractor (extractor_args p), Call_extract_keywords (JStr s)])"
proof -
  note tr = try_valid [OF assms(1,2,3), of lib]
  from assms(4) show ?thesis
  proof
    assume "yake_KeywordExtractor lib (extractor_args p) = Inl e"
    then show ?thesis
      using tr by (simp add: extract_keywords_def run_yake_def jsonify_status_def)
  next
    assume "\<exists>ex. yake_KeywordExtractor lib (extractor_args p) = Inr ex
                 \<and> yake_extract_keywords lib ex (JStr s) = Inl e"
    then show ?thesis
      using tr by (auto simp: extract_keywords_def run_yake_def jsonify_status_def)
  qed
qed

theorem extraction_failure_witness:
  "fst (extract_keywords failing_yake (Inr (JObj [(''text'', JStr ''The'')]))) =
     \<lparr>body = JObj [(''error'', JStr ''bad ngram size'')], status = 500\<rparr>
   \<and> snd (extract_keywords failing_yake (Inr (JObj [(''text'', JStr ''The'')]))) =
       [New_KeywordExtractor
          \<lparr>arg_lan = JStr ''en'', arg_n = JInt 1, arg_dedupLim = JFloat (9 / 10),
           arg_dedupFunc = JStr ''seqm'', arg_top = JInt 10, arg_features = JNull\<rparr>,
        Call_extract_keywords (JStr ''The'')]"
  using extraction_failure
          [of "[(''text'', JStr ''The'')]" "''The''"
              "\<lparr>language = DEFAULT_LANGUAGE, max_keywords = DEFAULT_MAX_KEYWORDS,
                dedup_threshold = DEFAULT_DEDUPLICATION_THRESHOLD,
                dedup_algo = DEFAULT_DEDUPLICATION_ALGO,
                window_size = DEFAULT_WINDOW_SIZE, top_n = DEFAULT_TOP_N\<rparr>"
              failing_yake "PyException ''ValueError'' ''bad ngram size''"]
  by (simp add: resolve_params_def failing_yake_def extractor_args_def
        DEFAULT_LANGUAGE_def DEFAULT_MAX_KEYWORDS_def DEFAULT_DEDUPLICATION_THRESHOLD_def
        DEFAULT_DEDUPLICATION_ALGO_def DEFAULT_WINDOW_SIZE_def DEFAULT_TOP_N_def)

subsection \<open>Defaults\<close>

text \<open>
  C7. A request with only \<open>text\<close> is handled as the same request with all six optional
  fields written out at their defaults; a request with any subset of the optional fields is
  handled as the same request with the omitted ones written out at their defaults, one
  field at a time or all together; and each omitted field resolves to its own default
  whatever other fields are present.
\<close>

theorem defaults_field_independent:
  "extract_keywords lib (Inr (JObj [(''text'', t)])) =
     extract_keywords lib
       (Inr (JObj [(''text'', t), (''language'', JStr ''en''), (''maxKeywords'', JInt 10),
                   (''deduplicationThreshold'', JFloat (9 / 10)),
                   (''deduplicationAlgo'', JStr ''seqm''),
                   (''windowSize'', JInt 1), (''topN'', JInt 10)]))
   \<and> extract_keywords lib (Inr (JObj kvs)) = extract_keywords lib (Inr (JObj (with_defaults kvs)))
   \<and> (optional_default key = Some dflt \<longrightarrow> map_of kvs key = None \<longrightarrow>
        extract_keywords lib (Inr (JObj kvs)) =
        extract_keywords lib (Inr (JObj (kvs @ [(key, dflt)]))))
   \<and> (\<exists>p. resolve_params (JObj kvs) = Inr p
        \<and> (map_of kvs ''language'' = None \<longrightarrow> language p = JStr ''en'')
        \<and> (map_of kvs ''maxKeywords'' = None \<longrightarrow> max_keywords p = JInt 10)
        \<and> (map_of kvs ''deduplicationThreshold'' = None \<longrightarrow> dedup_threshold p = JFloat (9 / 10))
        \<and> (map_of kvs ''deduplicationAlgo'' = None \<longrightarrow> dedup_algo p = JStr ''seqm'')
        \<and> (map_of kvs ''windowSize'' = None \<longrightarrow> window_size p = JInt 1)
        \<and> (map_of kvs ''topN'' = None \<longrightarrow> top_n p = JInt 10))"
proof (intro conjI impI)
  show "extract_keywords lib (Inr (JObj [(''text'', t)])) =
     extract_keywords lib
       (Inr (JObj [(''text'', t), (''language'', JStr ''en''), (''maxKeywords'', JInt 10),
                   (''deduplicationThreshold'', JFloat (9 / 10)),
                   (''deduplicationAlgo'', JStr ''seqm''),
                   (''windowSize'', JInt 1), (''topN'', JInt 10)]))"
    using with_defaults_same [of lib "[(''text'', t)]"]
    by (simp only: with_defaults_text_only)
  show "extract_keywords lib (Inr (JObj kvs)) = extract_keywords lib (Inr (JObj (with_defaults kvs)))"
    by (simp only: with_defaults_same)
next
  assume "optional_default key = Some dflt" "map_of kvs key = None"
  then show "extract_keywords lib (Inr (JObj kvs)) =
        extract_keywords lib (Inr (JObj (kvs @ [(key, dflt)])))"
    using set_default_same [of key dflt lib kvs] by (simp add: set_default_def)
next
  show "\<exists>p. resolve_params (JObj kvs) = Inr p
        \<and> (map_of kvs ''language'' = None \<longrightarrow> language p = JStr ''en'')
        \<and> (map_of kvs ''maxKeywords'' = None \<longrightarrow> max_keywords p = JInt 10)
        \<and> (map_of kvs ''deduplicationThreshold'' = None \<longrightarrow> dedup_threshold p = JFloat (9 / 10))
        \<and> (map_of kvs ''deduplicationAlgo'' = None \<longrightarrow> dedup_algo p = JStr ''seqm'')
        \<and> (map_of kvs ''windowSize'' = None \<longrightarrow> window_size p = JInt 1)
        \<and> (map_of kvs ''topN'' = None \<longrightarrow> top_n p = JInt 10)"
    by (simp add: resolve_params_dict DEFAULT_LANGUAGE_def DEFAULT_MAX_KEYWORDS_def
        DEFAULT_DEDUPLICATION_THRESHOLD_def DEFAULT_DEDUPLICATION_ALGO_def
        DEFAULT_WINDOW_SIZE_def DEFAULT_TOP_N_def)
qed

theorem defaults_field_independent_witness:
  "extract_keywords sample_yake (Inr (JObj [(''text'', JStr ''hi''), (''topN'', JInt 3)])) =
   extract_keywords sample_yake
     (Inr (JObj [(''text'', JStr ''hi''), (''topN'', JInt 3), (''windowSize'', JInt 1)]))"
proof -
  have a: "optional_default ''windowSize'' = Some (JInt 1)"
    by (simp add: optional_default_def DEFAULT_WINDOW_SIZE_def)
  have b: "map_of [(''text'', JStr ''hi''), (''topN'', JInt 3)] ''windowSize'' = None"
    by simp
  from defaults_field_independent
         [of sample_yake "JStr ''hi''" "[(''text'', JStr ''hi''), (''topN'', JInt 3)]"
             "''windowSize''" "JInt 1"] a b
  have "extract_keywords sample_yake (Inr (JObj [(''text'', JStr ''hi''), (''topN'', JInt 3)])) =
        extract_keywords sample_yake
          (Inr (JObj ([(''text'', JStr ''hi''), (''topN'', JInt 3)] @ [(''windowSize'', JInt 1)])))"
    by blast
  then show ?thesis by simp
qed

subsection \<open>One response for every request\<close>

text \<open>
  C8. Every request gets exactly one of three responses: a 200 with \<open>keywords\<close> and
  \<open>count\<close>, built from a prefix of what the library returned, after both library calls
  returned; a 400 with a single non-empty \<open>error\<close> and no library call; or a 500 with a
  single \<open>error\<close>, which is \<open>str(e)\<close> of the exception the try block raised. Every
  exception raised in the try block ends in that 500.
\<close>

theorem one_response_per_request:
  "((\<exists>args t ex raw m.
       extract_keywords lib req_json =
         (\<lparr>body = JObj [(''keywords'', JList (map keyword_json (take m raw))),
                        (''count'', JInt (int (length (map keyword_json (take m raw)))))],
           status = 200\<rparr>,
          [New_KeywordExtractor args, Call_extract_keywords t])
       \<and> yake_KeywordExtractor lib args = Inr ex
       \<and> yake_extract_keywords lib ex t = Inr raw)
    \<or> (\<exists>msg. msg \<noteq> []
          \<and> extract_keywords lib req_json =
              (\<lparr>body = JObj [(''error'', JStr msg)], status = 400\<rparr>, []))
    \<or> (\<exists>e evs. extract_keywords_try lib req_json = (Inl e, evs)
          \<and> extract_keywords lib req_json =
              (\<lparr>body = JObj [(''error'', JStr (exc_str e))], status = 500\<rparr>, evs)))
   \<and> (\<forall>e evs. extract_keywords_try lib req_json = (Inl e, evs) \<longrightarrow>
          extract_keywords lib req_json =
            (\<lparr>body = JObj [(''error'', JStr (exc_str e))], status = 500\<rparr>, evs))"
proof
  from try_outcomes [of lib req_json]
  consider (raised) e evs where "extract_keywords_try lib req_json = (Inl e, evs)"
    | (missing) "extract_keywords_try lib req_json =
        (Inr \<lparr>body = JObj [(''error'', JStr ''Missing required field: text'')],
              status = 400\<rparr>, [])"
    | (invalid) "extract_keywords_try lib req_json =
        (Inr \<lparr>body = JObj [(''error'', JStr ''Invalid text field: must be non-empty string'')],
              status = 400\<rparr>, [])"
    | (returned) args t ex raw v r where
        "extract_keywords_try lib req_json =
           (Inr r, [New_KeywordExtractor args, Call_extract_keywords t])"
        "yake_KeywordExtractor lib args = Inr ex"
        "yake_extract_keywords lib ex t = Inr raw"
        "format_results raw v = Inr r"
    by blast
  then show "(\<exists>args t ex raw m.
       extract_keywords lib req_json =
         (\<lparr>body = JObj [(''keywords'', JList (map keyword_json (take m raw))),
                        (''count'', JInt (int (length (map keyword_json (take m raw)))))],
           status = 200\<rparr>,
          [New_KeywordExtractor args, Call_extract_keywords t])
       \<and> yake_KeywordExtractor lib args = Inr ex
       \<and> yake_extract_keywords lib ex t = Inr raw)
    \<or> (\<exists>msg. msg \<noteq> []
          \<and> extract_keywords lib req_json =
              (\<lparr>body = JObj [(''error'', JStr msg)], status = 400\<rparr>, []))
    \<or> (\<exists>e evs. extract_keywords_try lib req_json = (Inl e, evs)
          \<and> extract_keywords lib req_json =
              (\<lparr>body = JObj [(''error'', JStr (exc_str e))], status = 500\<rparr>, evs))"
  proof cases
    case raised
    then have "extract_keywords lib req_json =
                 (\<lparr>body = JObj [(''error'', JStr (exc_str e))], status = 500\<rparr>, evs)"
      by (simp add: extract_keywords_def jsonify_status_def)
    with raised show ?thesis by blast
  next
    case missing
    then have "extract_keywords lib req_json =
        (\<lparr>body = JObj [(''error'', JStr ''Missing required field: text'')], status = 400\<rparr>, [])"
      by (simp add: extract_keywords_def)
    moreover have "''Missing required field: text'' \<noteq> []" by simp
    ultimately show ?thesis by blast
  next
    case invalid
    then have "extract_keywords lib req_json =
        (\<lparr>body = JObj [(''error'', JStr ''Invalid text field: must be non-empty string'')],
          status = 400\<rparr>, [])"
      by (simp add: extract_keywords_def)
    moreover have "''Invalid text field: must be non-empty string'' \<noteq> []" by simp
    ultimately show ?thesis by blast
  next
    case returned
    from format_results_shape [OF returned(4)] obtain m where
      "r = \<lparr>body = JObj [(''keywords'', JList (map keyword_json (take m raw))),
                         (''count'', JInt (int (length (map keyword_json (take m raw)))))],
             status = 200\<rparr>" ..
    with returned(1) have "extract_keywords lib req_json =
         (\<lparr>body = JObj [(''keywords'', JList (map keyword_json (take m raw))),
                        (''count'', JInt (int (length (map keyword_json (take m raw)))))],
           status = 200\<rparr>,
          [New_KeywordExtractor args, Call_extract_keywords t])"
      by (simp add: extract_keywords_def)
    with returned(2,3) show ?thesis by blast
  qed
next
  show "\<forall>e evs. extract_keywords_try lib req_json = (Inl e, evs) \<longrightarrow>
          extract_keywords lib req_json =
            (\<lparr>body = JObj [(''error'', JStr (exc_str e))], status = 500\<rparr>, evs)"
    by (simp add: extract_keywords_def jsonify_status_def)
qed

theorem one_response_per_request_witness:
  "extract_keywords sample_yake (Inr (JObj [(''text'', JStr ''a''), (''maxKeywords'', JStr ''5'')])) =
     (\<lparr>body = JObj [(''error'',
          JStr ''slice indices must be integers or None or have an __index__ method'')],
       status = 500\<rparr>,
      [New_KeywordExtractor
         \<lparr>arg_lan = JStr ''en'', arg_n = JInt 1, arg_dedupLim = JFloat (9 / 10),
          arg_dedupFunc = JStr ''seqm'', arg_top = JInt 10, arg_features = JNull\<rparr>,
       Call_extract_keywords (JStr ''a'')])"
proof -
  have "extract_keywords_try sample_yake
          (Inr (JObj [(''text'', JStr ''a''), (''maxKeywords'', JStr ''5'')])) =
        (Inl (PyException ''TypeError''
               ''slice indices must be integers or None or have an __index__ method''),
         [New_KeywordExtractor
            \<lparr>arg_lan = JStr ''en'', arg_n = JInt 1, arg_dedupLim = JFloat (9 / 10),
             arg_dedupFunc = JStr ''seqm'', arg_top = JInt 10, arg_features = JNull\<rparr>,
          Call_extract_keywords (JStr ''a'')])"
    by (simp add: extract_keywords_try_def resolve_params_def run_yake_def format_results_def
          extractor_args_def sample_yake_def TypeError_def
          DEFAULT_LANGUAGE_def DEFAULT_MAX_KEYWORDS_def DEFAULT_DEDUPLICATION_THRESHOLD_def
          DEFAULT_DEDUPLICATION_ALGO_def DEFAULT_WINDOW_SIZE_def DEFAULT_TOP_N_def)
  with one_response_per_request
         [of sample_yake "Inr (JObj [(''text'', JStr ''a''), (''maxKeywords'', JStr ''5'')])"]
  show ?thesis by simp
qed

subsection \<open>Health\<close>

text \<open>
  C9. \<open>GET /health\<close> returns a 200 with the fixed body, for any library and after any
  history of requests.
\<close>

theorem health_fixed:
  "health = \<lparr>body = JObj [(''status'', JStr ''healthy''),
                          (''service'', JStr ''YAKE Keyword Extraction Server''),
                          (''version'', JStr ''1.0.0'')],
             status = 200\<rparr>
   \<and> serve lib GET_health = health
   \<and> last (map (serve lib) (history @ [GET_health])) = health"
  by (simp add: serve_def health_def jsonify_def)

theorem health_fixed_witness:
  "last (map (serve failing_yake)
          [POST_extract (Inr (JObj [(''text'', JStr ''The'')])),
           POST_extract (Inr (JInt 5)),
           POST_extract (Inl (PyException ''BadRequest'' ''400 Bad Request'')),
           GET_health]) =
     \<lparr>body = JObj [(''status'', JStr ''healthy''),
                   (''service'', JStr ''YAKE Keyword Extraction Server''),
                   (''version'', JStr ''1.0.0'')],
      status = 200\<rparr>"
  using health_fixed
          [of failing_yake
              "[POST_extract (Inr (JObj [(''text'', JStr ''The'')])),
                POST_extract (Inr (JInt 5)),
                POST_extract (Inl (PyException ''BadRequest'' ''400 Bad Request''))]"]
  by simp

end
